theory Spec2Isabelle
  imports Complex_Main "HOL-Library.AList"
begin

section \<open>Values, exceptions and strings\<close>

text \<open>
  The router of \<^verbatim>\<open>banking_agents.py\<close> handles values that come out of two
  libraries: documents read from the Cosmos DB chat container and the result of
  \<^verbatim>\<open>json.loads\<close> on a message's content. Both are Python values of JSON shape.
  A float is kept by its value (a rational when finite), which is all that Python's
  truth test and \<^verbatim>\<open>==\<close> look at.
\<close>

datatype pyfloat = Finite rat | PosInf | NegInf | NaN

datatype json =
    JNull
  | JBool bool
  | JInt int
  | JFloat pyfloat
  | JStr string
  | JArr "json list"
  | JObj "(string \<times> json) list"

text \<open>
  Python's truth test (\<^verbatim>\<open>if x:\<close>): \<^verbatim>\<open>None\<close>, \<^verbatim>\<open>False\<close>, zero, the empty string,
  the empty list and the empty dict are false, every other value is true.
\<close>

fun truthy :: "json \<Rightarrow> bool" where
  "truthy JNull = False"
| "truthy (JBool b) = b"
| "truthy (JInt i) = (i \<noteq> 0)"
| "truthy (JFloat f) = (f \<noteq> Finite 0)"
| "truthy (JStr s) = (s \<noteq> [])"
| "truthy (JArr xs) = (xs \<noteq> [])"
| "truthy (JObj kvs) = (kvs \<noteq> [])"

text \<open>The exceptions the modelled code can meet, as values.\<close>

datatype exn =
    JSONDecodeError
  | ValueError
  | RecursionError
  | TypeError
  | AttributeError
  | IndexError
  | CosmosResourceNotFoundError
  | CosmosHttpResponseError string
  | AgentInvocationError string
  | McpError string
  | Exception string

text \<open>
  A dict is an association list in insertion order; the keys of a dict are distinct.
\<close>

type_synonym pydict = "(string \<times> json) list"

definition dict_get :: "pydict \<Rightarrow> string \<Rightarrow> json \<Rightarrow> json" where
  \<comment> \<open>\<^verbatim>\<open>d.get(k, default)\<close>\<close>
  "dict_get d k dflt = (case map_of d k of None \<Rightarrow> dflt | Some v \<Rightarrow> v)"

definition py_get :: "json \<Rightarrow> string \<Rightarrow> exn + json" where
  \<comment> \<open>\<^verbatim>\<open>x.get(k)\<close> on the result of \<^verbatim>\<open>json.loads\<close>: only a dict has \<^verbatim>\<open>get\<close>;
      on a list, a string, a number, a boolean or \<^verbatim>\<open>None\<close> the attribute lookup raises.\<close>
  "py_get x k = (case x of JObj d \<Rightarrow> Inr (dict_get d k JNull) | _ \<Rightarrow> Inl AttributeError)"

text \<open>
  Strings are lists of single-byte characters. \<^verbatim>\<open>str.strip()\<close> removes leading and
  trailing whitespace; in this range Python's whitespace is the set below.
\<close>

definition py_isspace :: "char \<Rightarrow> bool" where
  "py_isspace c = (of_char c \<in> set [9, 10, 11, 12, 13, 28, 29, 30, 31, 32, 133, 160 :: nat])"

definition strip :: "string \<Rightarrow> string" where
  "strip s = rev (dropWhile py_isspace (rev (dropWhile py_isspace s)))"

definition startswith :: "string \<Rightarrow> string \<Rightarrow> bool" where
  "startswith s p = (take (length p) s = p)"

definition split_colon_1 :: "string \<Rightarrow> string list" where
  \<comment> \<open>\<^verbatim>\<open>s.split(":", 1)\<close>: at most one split, at the first colon.\<close>
  "split_colon_1 s =
     (case dropWhile (\<lambda>c. c \<noteq> CHR '':'') s of
        [] \<Rightarrow> [s]
      | _ # rest \<Rightarrow> [takeWhile (\<lambda>c. c \<noteq> CHR '':'') s, rest])"

definition index :: "'a list \<Rightarrow> nat \<Rightarrow> exn + 'a" where
  \<comment> \<open>\<^verbatim>\<open>xs[i]\<close> for a non-negative \<^verbatim>\<open>i\<close>\<close>
  "index xs i = (if i < length xs then Inr (xs ! i) else Inl IndexError)"

text \<open>
  \<^verbatim>\<open>json.loads\<close> belongs to Python's standard library, not to the repository. The
  router is modelled over any function from a text to a parsed value or a raised
  exception. The library raises \<^verbatim>\<open>JSONDecodeError\<close> on a text that is no JSON document;
  it also raises a plain \<^verbatim>\<open>ValueError\<close> on an integer literal of more than 4300 digits and
  \<^verbatim>\<open>RecursionError\<close> on a document nested deeper than the interpreter allows.
\<close>

type_synonym json_loads = "string \<Rightarrow> exn + json"

section \<open>Messages, graph state and commands\<close>

text \<open>
  A message object of LangChain has a class and a content, which is a string or a list
  of content blocks. The input state's message list can also hold a plain dict: the
  transactions node appends one. An agent's response is whatever \<^verbatim>\<open>ainvoke\<close> returns:
  a dict, with or without a \<^verbatim>\<open>messages\<close> list of message objects, or something else.
\<close>

datatype msg_class = HumanMessage | AIMessage | SystemMessage | ToolMessage

datatype content = Str string | Blocks "json list"

datatype message = BaseMessage (msg_class: msg_class) (content: content)

datatype entry = Msg message | RawDict pydict

type_synonym messages_state = "entry list"

datatype response =
    NotADict
  | ResponseDict (response_messages: "message list option") (other_keys: pydict)

datatype update = UpdateState messages_state | UpdateResponse response

datatype command = Command (update: update) (goto: json)

type_synonym config = "(string \<times> string) list"

definition configurable_get :: "config \<Rightarrow> string \<Rightarrow> string \<Rightarrow> string" where
  \<comment> \<open>\<^verbatim>\<open>config["configurable"].get(k, default)\<close>\<close>
  "configurable_get config k dflt = (case map_of config k of None \<Rightarrow> dflt | Some v \<Rightarrow> v)"

section \<open>The Session Store and the agents\<close>

text \<open>
  The world a node runs in: what \<^verbatim>\<open>chat_container.read_item\<close> gives for a key
  (tenant, user, thread), an exception or the stored document, and the calls made to the
  store's writers and to the agents, oldest first.
\<close>

type_synonym key = "string \<times> string \<times> string"

datatype call =
    UpdateChatContainer pydict
  | PatchActiveAgent string string string string
  | AInvoke string messages_state "config option"

record world =
  chat_container :: "key \<Rightarrow> exn + pydict"
  calls :: "call list"

definition read_item :: "world \<Rightarrow> string \<Rightarrow> key \<Rightarrow> exn + pydict" where
  \<comment> \<open>\<^verbatim>\<open>chat_container.read_item(item=thread_id, partition_key=[tenantId, userId, thread_id])\<close>:
      the item's id is the partition key's last part.\<close>
  "read_item w item partition_key = chat_container w partition_key"

definition field_str :: "pydict \<Rightarrow> string \<Rightarrow> string" where
  "field_str d k = (case dict_get d k JNull of JStr s \<Rightarrow> s | _ \<Rightarrow> [])"

definition update_chat_container :: "pydict \<Rightarrow> world \<Rightarrow> world" where
  \<comment> \<open>Modelled from the spec: \<^verbatim>\<open>update_chat_container\<close> is defined in
      \<^verbatim>\<open>src.app.services.azure_cosmos_db\<close>, which is not among the sources. The spec
      gives \<^verbatim>\<open>write(record)\<close>, an upsert keyed by (tenant, user, thread).\<close>
  "update_chat_container item w =
     w\<lparr>chat_container :=
         (chat_container w)
           ((field_str item ''tenantId'', field_str item ''userId'', field_str item ''id'')
              := Inr item),
       calls := calls w @ [UpdateChatContainer item]\<rparr>"

definition patch_active_agent :: "string \<Rightarrow> string \<Rightarrow> string \<Rightarrow> string \<Rightarrow> world \<Rightarrow> world" where
  \<comment> \<open>Modelled from the spec: \<^verbatim>\<open>patch_active_agent\<close> is defined in
      \<^verbatim>\<open>src.app.services.azure_cosmos_db\<close>, which is not among the sources. The spec
      gives \<^verbatim>\<open>patchActiveAgent(tenant, user, thread, newAgent)\<close>; it sets the active
      agent of the record. The spec is silent on a record that cannot be read, and the
      model leaves the container as it is there.\<close>
  "patch_active_agent tenantId userId sessionId activeAgent w =
     w\<lparr>chat_container :=
         (case chat_container w (tenantId, userId, sessionId) of
            Inl e \<Rightarrow> chat_container w
          | Inr item \<Rightarrow>
              (chat_container w)
                ((tenantId, userId, sessionId)
                   := Inr (AList.update ''activeAgent'' (JStr activeAgent) item))),
       calls := calls w @ [PatchActiveAgent tenantId userId sessionId activeAgent]\<rparr>"

text \<open>
  The four agents are built by \<^verbatim>\<open>create_react_agent\<close> around a language model. An
  invocation is a function of the agent's name, the state and the config it is passed;
  it raises or returns a response. Every invocation is recorded in the calls.
\<close>

type_synonym agents = "string \<Rightarrow> messages_state \<Rightarrow> config option \<Rightarrow> exn + response"

definition ainvoke ::
  "agents \<Rightarrow> string \<Rightarrow> messages_state \<Rightarrow> config option \<Rightarrow> world \<Rightarrow> (exn + response) \<times> world"
where
  "ainvoke agents name state cfg w =
     (agents name state cfg, w\<lparr>calls := calls w @ [AInvoke name state cfg]\<rparr>)"

section \<open>The coordinator node\<close>

text \<open>
  The scan of the coordinator's response for a transfer request
  (\<^verbatim>\<open>call_coordinator_agent\<close>, the loop over \<^verbatim>\<open>response['messages']\<close>).
  \<open>try_parse_goto\<close> is the body of the \<^verbatim>\<open>try\<close>: \<open>Inr (Some t)\<close> is the
  \<^verbatim>\<open>break\<close> with \<^verbatim>\<open>transfer_target = t\<close>, \<open>Inr None\<close> is falling through, \<open>Inl e\<close>
  is the exception raised in the body.
\<close>

definition try_parse_goto :: "json_loads \<Rightarrow> string \<Rightarrow> exn + json option" where
  "try_parse_goto loads s =
     (case loads s of
        Inl e \<Rightarrow> Inl e
      | Inr content_data \<Rightarrow>
          (case py_get content_data ''goto'' of
             Inl e \<Rightarrow> Inl e
           | Inr g \<Rightarrow> if truthy g then Inr (Some g) else Inr None))"

text \<open>
  One round of the loop. Every message object has a \<^verbatim>\<open>content\<close> attribute. The
  handler catches \<^verbatim>\<open>(json.JSONDecodeError, TypeError, AttributeError)\<close> and then looks
  for the old format; any other exception leaves the node.
\<close>

definition check_message :: "json_loads \<Rightarrow> message \<Rightarrow> exn + json option" where
  "check_message loads m =
     (case content m of
        Blocks bs \<Rightarrow> Inr None
      | Str s \<Rightarrow>
          if strip s \<noteq> [] then
            (case try_parse_goto loads s of
               Inr r \<Rightarrow> Inr r
             | Inl e \<Rightarrow>
                 if e \<in> {JSONDecodeError, TypeError, AttributeError} then
                   (if startswith s ''TRANSFER_REQUEST:'' then
                      (case index (split_colon_1 s) 1 of
                         Inl e' \<Rightarrow> Inl e'
                       | Inr t \<Rightarrow> Inr (Some (JStr t)))
                    else Inr None)
                 else Inl e)
          else Inr None)"

fun scan_messages :: "json_loads \<Rightarrow> message list \<Rightarrow> exn + json" where
  "scan_messages loads [] = Inr JNull"
| "scan_messages loads (m # ms) =
     (case check_message loads m of
        Inl e \<Rightarrow> Inl e
      | Inr (Some t) \<Rightarrow> Inr t
      | Inr None \<Rightarrow> scan_messages loads ms)"

definition find_transfer_target :: "json_loads \<Rightarrow> response \<Rightarrow> exn + json" where
  \<comment> \<open>\<^verbatim>\<open>transfer_target\<close> after the scan; \<^verbatim>\<open>None\<close> is \<open>JNull\<close>.\<close>
  "find_transfer_target loads response =
     (case response of
        NotADict \<Rightarrow> Inr JNull
      | ResponseDict None other \<Rightarrow> Inr JNull
      | ResponseDict (Some ms) other \<Rightarrow> scan_messages loads ms)"

definition default_session :: "string \<Rightarrow> pydict" where
  "default_session thread_id =
     [(''id'', JStr thread_id),
      (''tenantId'', JStr ''cli-test''),
      (''userId'', JStr ''cli-test''),
      (''sessionId'', JStr thread_id),
      (''name'', JStr ''cli-test''),
      (''age'', JStr ''cli-test''),
      (''address'', JStr ''cli-test''),
      (''activeAgent'', JStr ''unknown''),
      (''ChatName'', JStr ''cli-test''),
      (''messages'', JArr [])]"

definition call_coordinator_agent ::
  "bool \<Rightarrow> json_loads \<Rightarrow> agents \<Rightarrow> messages_state \<Rightarrow> config \<Rightarrow> world
     \<Rightarrow> (exn + command) \<times> world"
where
  "call_coordinator_agent local_interactive_mode loads agents state config w =
     (let thread_id = configurable_get config ''thread_id'' ''UNKNOWN_THREAD_ID'';
          userId = configurable_get config ''userId'' ''UNKNOWN_USER_ID'';
          tenantId = configurable_get config ''tenantId'' ''UNKNOWN_TENANT_ID'';
          activeAgent =
            (case read_item w thread_id (tenantId, userId, thread_id) of
               Inl e \<Rightarrow> JNull
             | Inr item \<Rightarrow> dict_get item ''activeAgent'' (JStr ''unknown''));
          w1 = (if activeAgent = JNull then
                  (if local_interactive_mode
                   then update_chat_container (default_session thread_id) w
                   else w)
                else w)
      in if activeAgent \<notin> set [JNull, JStr ''unknown'', JStr ''coordinator_agent''] then
           (Inr (Command (UpdateState state) activeAgent), w1)
         else
           (case ainvoke agents ''coordinator_agent'' state None w1 of
              (Inl e, w2) \<Rightarrow> (Inl e, w2)
            | (Inr response, w2) \<Rightarrow>
                (case find_transfer_target loads response of
                   Inl e \<Rightarrow> (Inl e, w2)
                 | Inr transfer_target \<Rightarrow>
                     if truthy transfer_target then
                       (Inr (Command (UpdateResponse response) transfer_target), w2)
                     else
                       (Inr (Command (UpdateResponse response) (JStr ''human'')), w2))))"

section \<open>The specialist nodes\<close>

definition call_customer_support_agent ::
  "bool \<Rightarrow> agents \<Rightarrow> messages_state \<Rightarrow> config \<Rightarrow> world \<Rightarrow> (exn + command) \<times> world"
where
  "call_customer_support_agent local_interactive_mode agents state config w =
     (let thread_id = configurable_get config ''thread_id'' ''UNKNOWN_THREAD_ID'';
          w1 = (if local_interactive_mode
                then patch_active_agent ''cli-test'' ''cli-test'' thread_id
                       ''customer_support_agent'' w
                else w)
      in case ainvoke agents ''customer_support_agent'' state None w1 of
           (Inl e, w2) \<Rightarrow> (Inl e, w2)
         | (Inr response, w2) \<Rightarrow>
             (Inr (Command (UpdateResponse response) (JStr ''human'')), w2))"

definition call_sales_agent ::
  "bool \<Rightarrow> agents \<Rightarrow> messages_state \<Rightarrow> config \<Rightarrow> world \<Rightarrow> (exn + command) \<times> world"
where
  "call_sales_agent local_interactive_mode agents state config w =
     (let thread_id = configurable_get config ''thread_id'' ''UNKNOWN_THREAD_ID'';
          w1 = (if local_interactive_mode
                then patch_active_agent ''cli-test'' ''cli-test'' thread_id ''sales_agent'' w
                else w)
      in case ainvoke agents ''sales_agent'' state (Some config) w1 of
           (Inl e, w2) \<Rightarrow> (Inl e, w2)
         | (Inr response, w2) \<Rightarrow>
             (Inr (Command (UpdateResponse response) (JStr ''human'')), w2))"

definition bank_transfer_hint :: "string \<Rightarrow> string \<Rightarrow> string \<Rightarrow> entry" where
  \<comment> \<open>the dict appended to \<^verbatim>\<open>state["messages"]\<close>\<close>
  "bank_transfer_hint tenantId userId thread_id =
     RawDict
       [(''role'', JStr ''system''),
        (''content'',
         JStr (''When calling bank_transfer tool, be sure to pass in tenantId='' @ [CHR 0x27]
               @ tenantId @ [CHR 0x27] @ '', userId='' @ [CHR 0x27] @ userId @ [CHR 0x27]
               @ '', thread_id='' @ [CHR 0x27] @ thread_id @ [CHR 0x27]))]"

definition remove_system_messages :: "response \<Rightarrow> response" where
  \<comment> \<open>\<^verbatim>\<open>if isinstance(response, dict) and "messages" in response: ...\<close>\<close>
  "remove_system_messages response =
     (case response of
        NotADict \<Rightarrow> NotADict
      | ResponseDict None other \<Rightarrow> ResponseDict None other
      | ResponseDict (Some ms) other \<Rightarrow>
          ResponseDict (Some (filter (\<lambda>msg. msg_class msg \<noteq> SystemMessage) ms)) other)"

text \<open>
  The transactions node appends to the list held by its argument, so the caller's state
  changes too: the model returns the state as the node leaves it, beside the result.
\<close>

definition call_transactions_agent ::
  "bool \<Rightarrow> agents \<Rightarrow> messages_state \<Rightarrow> config \<Rightarrow> world
     \<Rightarrow> (exn + command) \<times> messages_state \<times> world"
where
  "call_transactions_agent local_interactive_mode agents state config w =
     (let thread_id = configurable_get config ''thread_id'' ''UNKNOWN_THREAD_ID'';
          userId = configurable_get config ''userId'' ''UNKNOWN_USER_ID'';
          tenantId = configurable_get config ''tenantId'' ''UNKNOWN_TENANT_ID'';
          w1 = (if local_interactive_mode
                then patch_active_agent ''cli-test'' ''cli-test'' thread_id
                       ''transactions_agent'' w
                else w);
          state' = state @ [bank_transfer_hint tenantId userId thread_id]
      in case ainvoke agents ''transactions_agent'' state' (Some config) w1 of
           (Inl e, w2) \<Rightarrow> (Inl e, state', w2)
         | (Inr response, w2) \<Rightarrow>
             (Inr (Command (UpdateResponse (remove_system_messages response)) (JStr ''human'')),
              state', w2))"

section \<open>The conditional edge\<close>

text \<open>
  \<^verbatim>\<open>get_active_agent\<close>: the newest tool message with a true \<^verbatim>\<open>goto\<close> decides; the
  \<^verbatim>\<open>try\<close> catches every \<^verbatim>\<open>Exception\<close>. \<open>try_tool_goto\<close> is the body of the
  \<^verbatim>\<open>try\<close> up to the assignment; \<^verbatim>\<open>json.loads\<close> of a content that is not a string
  raises \<^verbatim>\<open>TypeError\<close>.
\<close>

definition try_tool_goto :: "json_loads \<Rightarrow> message \<Rightarrow> exn + json" where
  "try_tool_goto loads m =
     (case content m of
        Blocks bs \<Rightarrow> Inl TypeError
      | Str s \<Rightarrow>
          (case loads s of
             Inl e \<Rightarrow> Inl e
           | Inr content_json \<Rightarrow> py_get content_json ''goto''))"

definition isinstance_ToolMessage :: "entry \<Rightarrow> message option" where
  "isinstance_ToolMessage x =
     (case x of
        Msg m \<Rightarrow> if msg_class m = ToolMessage then Some m else None
      | RawDict d \<Rightarrow> None)"

text \<open>The loop over \<^verbatim>\<open>reversed(state['messages'])\<close>, started with the reversed list.\<close>

fun scan_tool_messages :: "json_loads \<Rightarrow> json \<Rightarrow> entry list \<Rightarrow> json" where
  "scan_tool_messages loads activeAgent [] = activeAgent"
| "scan_tool_messages loads activeAgent (x # xs) =
     (case isinstance_ToolMessage x of
        None \<Rightarrow> scan_tool_messages loads activeAgent xs
      | Some m \<Rightarrow>
          (case try_tool_goto loads m of
             Inl e \<Rightarrow> scan_tool_messages loads activeAgent xs
           | Inr g \<Rightarrow> if truthy g then g else scan_tool_messages loads g xs))"

definition get_active_agent :: "json_loads \<Rightarrow> messages_state \<Rightarrow> config \<Rightarrow> world \<Rightarrow> json" where
  "get_active_agent loads state config w =
     (let thread_id = configurable_get config ''thread_id'' ''UNKNOWN_THREAD_ID'';
          userId = configurable_get config ''userId'' ''UNKNOWN_USER_ID'';
          tenantId = configurable_get config ''tenantId'' ''UNKNOWN_TENANT_ID'';
          activeAgent = scan_tool_messages loads JNull (rev state)
      in if \<not> truthy activeAgent then
           (case read_item w thread_id (tenantId, userId, thread_id) of
              Inl e \<Rightarrow> JStr ''unknown''
            | Inr item \<Rightarrow> dict_get item ''activeAgent'' (JStr ''unknown''))
         else activeAgent)"

section \<open>Capability bootstrap\<close>

text \<open>
  \<^verbatim>\<open>get_persistent_mcp_client\<close> and the module's globals. The two providers are outside
  the repository's sources: what each of their calls gives, an exception or a value, is
  the environment. A tool is known by its name. The attempts made are recorded in order.
\<close>

datatype shared_client = SharedMCPClient

datatype mcp_client = SharedMCPClientWrapper shared_client | MultiServerMCPClient

datatype provider = SharedMCP | LightweightMCP

record mcp_env =
  get_shared_mcp_client :: "exn + shared_client"
  shared_get_tools :: "exn + string list"
  new_multi_server_client :: "exn + mcp_client"
  multi_get_tools :: "exn + string list"

record mcp_globals =
  persistent_mcp_client :: "mcp_client option"
  mcp_tools_cache :: "string list option"
  shared_mcp_client :: "shared_client option"
  attempts :: "provider list"

definition both_failed :: exn where
  "both_failed = Exception ''Both shared and lightweight MCP initialization failed''"

definition lightweight_fallback ::
  "mcp_env \<Rightarrow> mcp_globals \<Rightarrow> (exn + mcp_client \<times> string list option) \<times> mcp_globals"
where
  \<comment> \<open>the handler of the outer \<^verbatim>\<open>try\<close>\<close>
  "lightweight_fallback env g =
     (let g0 = g\<lparr>attempts := attempts g @ [LightweightMCP]\<rparr> in
      case new_multi_server_client env of
        Inl e \<Rightarrow> (Inl both_failed, g0)
      | Inr c \<Rightarrow>
          (let g1 = g0\<lparr>persistent_mcp_client := Some c\<rparr> in
           case multi_get_tools env of
             Inl e \<Rightarrow> (Inl both_failed, g1)
           | Inr tools \<Rightarrow>
               (Inr (c, Some tools), g1\<lparr>mcp_tools_cache := Some tools\<rparr>)))"

definition get_persistent_mcp_client ::
  "mcp_env \<Rightarrow> mcp_globals \<Rightarrow> (exn + mcp_client \<times> string list option) \<times> mcp_globals"
where
  "get_persistent_mcp_client env g =
     (case persistent_mcp_client g of
        Some c \<Rightarrow> (Inr (c, mcp_tools_cache g), g)
      | None \<Rightarrow>
          (let g0 = g\<lparr>attempts := attempts g @ [SharedMCP]\<rparr> in
           case get_shared_mcp_client env of
             Inl e \<Rightarrow> lightweight_fallback env g0
           | Inr sc \<Rightarrow>
               (let g1 = g0\<lparr>shared_mcp_client := Some sc\<rparr> in
                case shared_get_tools env of
                  Inl e \<Rightarrow> lightweight_fallback env g1
                | Inr tools \<Rightarrow>
                    (Inr (SharedMCPClientWrapper sc, Some tools),
                     g1\<lparr>mcp_tools_cache := Some tools,
                        persistent_mcp_client := Some (SharedMCPClientWrapper sc)\<rparr>))))"

definition primary_fails :: "mcp_env \<Rightarrow> bool" where
  "primary_fails env = (isl (get_shared_mcp_client env) \<or> isl (shared_get_tools env))"

definition fallback_fails :: "mcp_env \<Rightarrow> bool" where
  "fallback_fails env = (isl (new_multi_server_client env) \<or> isl (multi_get_tools env))"

section \<open>A JSON reader for the examples\<close>

text \<open>
  To run the router on concrete message contents, \<open>json_loads_fragment\<close> reads the part
  of JSON made of objects, arrays, strings without escapes, integers, \<^verbatim>\<open>true\<close>,
  \<^verbatim>\<open>false\<close> and \<^verbatim>\<open>null\<close>, with JSON's whitespace between tokens. On a document of this
  part it gives the value \<^verbatim>\<open>json.loads\<close> gives; on a text that is no JSON document it
  raises \<^verbatim>\<open>JSONDecodeError\<close>; on an integer literal of more than 4300 digits it raises
  \<^verbatim>\<open>ValueError\<close>, as the library does since Python 3.11 (the interpreter's limit on the
  conversion of a string to an integer). Documents outside this part (floats, the names
  \<^verbatim>\<open>NaN\<close> and \<^verbatim>\<open>Infinity\<close>, escapes in strings) are rejected here, and the
  interpreter's recursion limit is not modelled, so the reader stands in for
  \<^verbatim>\<open>json.loads\<close> only at the concrete inputs of the examples; every general statement is
  about an arbitrary \<open>loads\<close>. The fuel of the reader, the length of the text and one
  more, bounds the nesting.
\<close>

definition json_ws :: "char \<Rightarrow> bool" where
  "json_ws c = (c \<in> set [CHR 0x20, CHR 0x09, CHR 0x0A, CHR 0x0D])"

definition skip_ws :: "string \<Rightarrow> string" where
  "skip_ws s = dropWhile json_ws s"

definition is_digit :: "char \<Rightarrow> bool" where
  "is_digit c = (48 \<le> (of_char c :: nat) \<and> (of_char c :: nat) \<le> 57)"

definition digits_value :: "string \<Rightarrow> int" where
  "digits_value ds = foldl (\<lambda>acc c. 10 * acc + (int (of_char c) - 48)) 0 ds"

definition dict_of_pairs :: "(string \<times> json) list \<Rightarrow> pydict" where
  \<comment> \<open>a repeated key keeps its first place and takes its last value, as in \<^verbatim>\<open>json.loads\<close>\<close>
  "dict_of_pairs kvs = foldl (\<lambda>d (k, v). AList.update k v d) [] kvs"

definition read_string :: "string \<Rightarrow> exn + string \<times> string" where
  \<comment> \<open>after the opening quote: the characters up to the closing quote\<close>
  "read_string s =
     (let body = takeWhile (\<lambda>c. c \<noteq> CHR 0x22) s;
          rest = dropWhile (\<lambda>c. c \<noteq> CHR 0x22) s
      in if rest = [] \<or> (\<exists>c \<in> set body. c = CHR 0x5C \<or> (of_char c :: nat) < 32)
         then Inl JSONDecodeError else Inr (body, tl rest))"

definition read_int :: "string \<Rightarrow> exn + json \<times> string" where
  "read_int s =
     (let neg = (s \<noteq> [] \<and> hd s = CHR ''-'');
          t = (if neg then tl s else s);
          ds = takeWhile is_digit t;
          rest = dropWhile is_digit t
      in if ds = [] \<or> (hd ds = CHR ''0'' \<and> length ds > 1)
            \<or> (rest \<noteq> [] \<and> hd rest \<in> set [CHR ''.'', CHR ''e'', CHR ''E''])
         then Inl JSONDecodeError
         else if length ds > 4300 then Inl ValueError
         else Inr (JInt (if neg then - digits_value ds else digits_value ds), rest))"

fun read_value :: "nat \<Rightarrow> string \<Rightarrow> exn + json \<times> string"
  and read_elements :: "nat \<Rightarrow> string \<Rightarrow> exn + json list \<times> string"
  and read_members :: "nat \<Rightarrow> string \<Rightarrow> exn + (string \<times> json) list \<times> string"
where
  "read_value 0 s = Inl JSONDecodeError"
| "read_value (Suc n) s =
     (let t = skip_ws s in
      if t = [] then Inl JSONDecodeError
      else if hd t = CHR ''{'' then
        (if skip_ws (tl t) \<noteq> [] \<and> hd (skip_ws (tl t)) = CHR ''}''
         then Inr (JObj [], tl (skip_ws (tl t)))
         else map_sum id (apfst (JObj \<circ> dict_of_pairs)) (read_members n (tl t)))
      else if hd t = CHR ''['' then
        (if skip_ws (tl t) \<noteq> [] \<and> hd (skip_ws (tl t)) = CHR '']''
         then Inr (JArr [], tl (skip_ws (tl t)))
         else map_sum id (apfst JArr) (read_elements n (tl t)))
      else if hd t = CHR 0x22 then map_sum id (apfst JStr) (read_string (tl t))
      else if startswith t ''true'' then Inr (JBool True, drop 4 t)
      else if startswith t ''false'' then Inr (JBool False, drop 5 t)
      else if startswith t ''null'' then Inr (JNull, drop 4 t)
      else read_int t)"
| "read_elements 0 s = Inl JSONDecodeError"
| "read_elements (Suc n) s =
     (case read_value n s of
        Inl e \<Rightarrow> Inl e
      | Inr (v, r) \<Rightarrow>
          (let t = skip_ws r in
           if t = [] then Inl JSONDecodeError
           else if hd t = CHR '','' then
             map_sum id (apfst ((#) v)) (read_elements n (tl t))
           else if hd t = CHR '']'' then Inr ([v], tl t)
           else Inl JSONDecodeError))"
| "read_members 0 s = Inl JSONDecodeError"
| "read_members (Suc n) s =
     (let t = skip_ws s in
      if t = [] \<or> hd t \<noteq> CHR 0x22 then Inl JSONDecodeError
      else
        (case read_string (tl t) of
           Inl e \<Rightarrow> Inl e
         | Inr (k, r) \<Rightarrow>
             (let u = skip_ws r in
              if u = [] \<or> hd u \<noteq> CHR '':'' then Inl JSONDecodeError
              else
                (case read_value n (tl u) of
                   Inl e \<Rightarrow> Inl e
                 | Inr (v, r') \<Rightarrow>
                     (let x = skip_ws r' in
                      if x = [] then Inl JSONDecodeError
                      else if hd x = CHR '','' then
                        map_sum id (apfst ((#) (k, v))) (read_members n (tl x))
                      else if hd x = CHR ''}'' then Inr ([(k, v)], tl x)
                      else Inl JSONDecodeError)))))"

definition json_loads_fragment :: json_loads where
  "json_loads_fragment s =
     (case read_value (Suc (length s)) s of
        Inl e \<Rightarrow> Inl e
      | Inr (v, r) \<Rightarrow> if skip_ws r = [] then Inr v else Inl JSONDecodeError)"

section \<open>The extraction as the specification words it\<close>

text \<open>
  The specification describes one extraction for every agent response: the messages are
  inspected newest first; only tool-result messages count; a structured \<^verbatim>\<open>goto\<close> is
  tried first and the legacy \<^verbatim>\<open>TRANSFER_REQUEST:\<close> form only when that fails; the first
  match decides and no match means no transfer.
\<close>

definition first_match :: "('a \<Rightarrow> 'b option) \<Rightarrow> 'a list \<Rightarrow> 'b option" where
  "first_match f xs = (case List.map_filter f xs of [] \<Rightarrow> None | y # ys \<Rightarrow> Some y)"

definition structured_goto :: "json_loads \<Rightarrow> string \<Rightarrow> json option" where
  "structured_goto loads s =
     (case loads s of
        Inr (JObj d) \<Rightarrow>
          (if truthy (dict_get d ''goto'' JNull) then Some (dict_get d ''goto'' JNull) else None)
      | _ \<Rightarrow> None)"

definition legacy_target :: "string \<Rightarrow> json option" where
  "legacy_target s =
     (if startswith s ''TRANSFER_REQUEST:'' then Some (JStr (drop 17 s)) else None)"

definition spec_directive :: "json_loads \<Rightarrow> message \<Rightarrow> json option" where
  "spec_directive loads m =
     (if msg_class m = ToolMessage then
        (case content m of
           Blocks bs \<Rightarrow> None
         | Str s \<Rightarrow>
             (case structured_goto loads s of
                Some g \<Rightarrow> Some g
              | None \<Rightarrow> legacy_target s))
      else None)"

definition spec_transfer_target :: "json_loads \<Rightarrow> message list \<Rightarrow> json option" where
  "spec_transfer_target loads ms = first_match (spec_directive loads) (rev ms)"

section \<open>The scan of the conditional edge, without its loop\<close>

text \<open>
  What one entry of the state contributes to the scan of \<^verbatim>\<open>get_active_agent\<close>: a tool
  message whose content parses to an object with a true \<^verbatim>\<open>goto\<close> gives that value, every
  other entry gives nothing.
\<close>

definition tool_message_goto :: "json_loads \<Rightarrow> entry \<Rightarrow> json option" where
  "tool_message_goto loads x =
     (case x of
        RawDict d \<Rightarrow> None
      | Msg m \<Rightarrow>
          if msg_class m = ToolMessage then
            (case content m of Blocks bs \<Rightarrow> None | Str s \<Rightarrow> structured_goto loads s)
          else None)"

section \<open>Notions used in the statements\<close>

definition thread_key :: "config \<Rightarrow> key" where
  \<comment> \<open>the key every node reads the thread's record under\<close>
  "thread_key config =
     (configurable_get config ''tenantId'' ''UNKNOWN_TENANT_ID'',
      configurable_get config ''userId'' ''UNKNOWN_USER_ID'',
      configurable_get config ''thread_id'' ''UNKNOWN_THREAD_ID'')"

definition store_active_agent :: "world \<Rightarrow> config \<Rightarrow> json" where
  \<comment> \<open>the fallback of \<^verbatim>\<open>get_active_agent\<close>: the record's active agent, or \<^verbatim>\<open>"unknown"\<close>\<close>
  "store_active_agent w config =
     (case chat_container w (thread_key config) of
        Inl e \<Rightarrow> JStr ''unknown''
      | Inr item \<Rightarrow> dict_get item ''activeAgent'' (JStr ''unknown''))"

definition update_messages :: "update \<Rightarrow> entry list" where
  \<comment> \<open>the message list a command's update carries\<close>
  "update_messages u =
     (case u of
        UpdateState st \<Rightarrow> st
      | UpdateResponse NotADict \<Rightarrow> []
      | UpdateResponse (ResponseDict None other) \<Rightarrow> []
      | UpdateResponse (ResponseDict (Some ms) other) \<Rightarrow> map Msg ms)"

definition is_system_role :: "entry \<Rightarrow> bool" where
  "is_system_role x =
     (case x of
        Msg m \<Rightarrow> msg_class m = SystemMessage
      | RawDict d \<Rightarrow> dict_get d ''role'' JNull = JStr ''system'')"

section \<open>Example inputs\<close>

definition empty_store :: world where
  "empty_store = \<lparr>chat_container = (\<lambda>k. Inl CosmosResourceNotFoundError), calls = []\<rparr>"

definition unreachable_store :: world where
  "unreachable_store =
     \<lparr>chat_container = (\<lambda>k. Inl (CosmosHttpResponseError ''503 Service Unavailable'')),
      calls = []\<rparr>"

definition config_T1 :: config where
  "config_T1 = [(''thread_id'', ''T1''), (''userId'', ''Mark''), (''tenantId'', ''Contoso'')]"

definition sales_session :: pydict where
  "sales_session =
     [(''id'', JStr ''T1''), (''tenantId'', JStr ''Contoso''), (''userId'', JStr ''Mark''),
      (''activeAgent'', JStr ''sales_agent'')]"

definition sales_store :: world where
  "sales_store =
     \<lparr>chat_container =
        (\<lambda>k. if k = (''Contoso'', ''Mark'', ''T1'') then Inr sales_session
             else Inl CosmosResourceNotFoundError),
      calls = []\<rparr>"

definition cli_store :: world where
  "cli_store =
     \<lparr>chat_container =
        (\<lambda>k. if k = (''cli-test'', ''cli-test'', ''T1'') then Inr (default_session ''T1'')
             else Inl CosmosResourceNotFoundError),
      calls = []\<rparr>"

definition reply_messages :: "message list" where
  "reply_messages =
     [BaseMessage SystemMessage (Str ''context''),
      BaseMessage HumanMessage (Str ''hello''),
      BaseMessage AIMessage (Str ''How can I help?'')]"

definition reply_agents :: agents where
  "reply_agents name state cfg = Inr (ResponseDict (Some reply_messages) [])"

definition failing_agents :: agents where
  "failing_agents name state cfg = Inl (AgentInvocationError ''model unavailable'')"

definition legacy_sales :: message where
  "legacy_sales = BaseMessage ToolMessage (Str ''TRANSFER_REQUEST:sales_agent'')"

definition goto_transactions :: message where
  \<open>goto_transactions = BaseMessage ToolMessage (Str ''{"goto": "transactions_agent"}'')\<close>

definition ai_goto_sales :: message where
  \<open>ai_goto_sales = BaseMessage AIMessage (Str ''{"goto": "sales_agent"}'')\<close>

definition transfer_agents :: agents where
  "transfer_agents name state cfg = Inr (ResponseDict (Some [legacy_sales, goto_transactions]) [])"

definition human_transfer :: message where
  "human_transfer = BaseMessage HumanMessage (Str ''TRANSFER_REQUEST:no_such_node'')"

definition long_integer :: string where
  "long_integer = replicate 4301 (CHR ''1'')"

definition long_integer_message :: message where
  "long_integer_message = BaseMessage ToolMessage (Str long_integer)"

definition long_integer_agents :: agents where
  "long_integer_agents name state cfg = Inr (ResponseDict (Some [long_integer_message]) [])"

definition fresh_globals :: mcp_globals where
  "fresh_globals =
     \<lparr>persistent_mcp_client = None, mcp_tools_cache = None, shared_mcp_client = None,
      attempts = []\<rparr>"

definition env_shared_up :: mcp_env where
  "env_shared_up =
     \<lparr>get_shared_mcp_client = Inr SharedMCPClient,
      shared_get_tools = Inr [''transfer_to_sales_agent'', ''bank_balance''],
      new_multi_server_client = Inl (McpError ''not started''),
      multi_get_tools = Inl (McpError ''not started'')\<rparr>"

definition env_shared_down :: mcp_env where
  "env_shared_down =
     \<lparr>get_shared_mcp_client = Inl (McpError ''connection refused''),
      shared_get_tools = Inl (McpError ''connection refused''),
      new_multi_server_client = Inr MultiServerMCPClient,
      multi_get_tools = Inr [''bank_balance'']\<rparr>"

definition env_both_down :: mcp_env where
  "env_both_down =
     \<lparr>get_shared_mcp_client = Inl (McpError ''connection refused''),
      shared_get_tools = Inl (McpError ''connection refused''),
      new_multi_server_client = Inr MultiServerMCPClient,
      multi_get_tools = Inl (McpError ''server exited'')\<rparr>"

section \<open>Lemmas on the scans\<close>

lemma dict_get_update: "dict_get (AList.update k v d) k dflt = v"
  by (simp add: dict_get_def update_conv')

lemma patch_active_agent_sets:
  assumes "chat_container w (t, u, s) = Inr item"
  shows "\<exists>item'. chat_container (patch_active_agent t u s a w) (t, u, s) = Inr item'
                 \<and> dict_get item' ''activeAgent'' JNull = JStr a"
  using assms by (simp add: patch_active_agent_def dict_get_update)

lemma first_match_Nil: "first_match f [] = None"
  by (simp add: first_match_def map_filter_simps)

lemma first_match_Cons:
  "first_match f (x # xs) = (case f x of Some y \<Rightarrow> Some y | None \<Rightarrow> first_match f xs)"
  by (simp add: first_match_def map_filter_simps split: option.splits)

text \<open>The loop of the conditional edge: the variable \<^verbatim>\<open>activeAgent\<close> may be left with a
  false value by a tool message without a true \<^verbatim>\<open>goto\<close>; the lookup that follows
  replaces it.\<close>

lemma tool_message_goto_truthy: "tool_message_goto loads x = Some g \<Longrightarrow> truthy g"
  by (auto simp: tool_message_goto_def structured_goto_def
        split: entry.splits content.splits sum.splits json.splits if_splits)

lemma scan_step:
  "scan_tool_messages loads a (x # xs) =
     (case tool_message_goto loads x of
        Some g \<Rightarrow> g
      | None \<Rightarrow>
          scan_tool_messages loads
            (case isinstance_ToolMessage x of
               None \<Rightarrow> a
             | Some m \<Rightarrow> (case try_tool_goto loads m of Inl e \<Rightarrow> a | Inr g \<Rightarrow> g)) xs)"
  by (cases x)
     (auto simp: tool_message_goto_def isinstance_ToolMessage_def try_tool_goto_def
        structured_goto_def py_get_def
        split: content.splits json.splits sum.splits)

lemma step_falsy:
  "tool_message_goto loads x = None \<Longrightarrow> \<not> truthy a \<Longrightarrow>
     \<not> truthy (case isinstance_ToolMessage x of
                 None \<Rightarrow> a
               | Some m \<Rightarrow> (case try_tool_goto loads m of Inl e \<Rightarrow> a | Inr g \<Rightarrow> g))"
  by (cases x)
     (auto simp: tool_message_goto_def isinstance_ToolMessage_def try_tool_goto_def
        structured_goto_def py_get_def
        split: content.splits json.splits sum.splits if_splits)

lemma scan_tool_messages_first_match:
  "\<not> truthy a \<Longrightarrow>
     (case first_match (tool_message_goto loads) xs of
        Some g \<Rightarrow> scan_tool_messages loads a xs = g \<and> truthy g
      | None \<Rightarrow> \<not> truthy (scan_tool_messages loads a xs))"
proof (induction xs arbitrary: a)
  case Nil
  then show ?case by (simp add: first_match_Nil)
next
  case (Cons x xs)
  show ?case
  proof (cases "tool_message_goto loads x")
    case (Some g)
    then show ?thesis
      by (simp add: first_match_Cons scan_step tool_message_goto_truthy
            del: scan_tool_messages.simps)
  next
    case None
    have eq: "scan_tool_messages loads a (x # xs) =
          scan_tool_messages loads
            (case isinstance_ToolMessage x of
               None \<Rightarrow> a
             | Some m \<Rightarrow> (case try_tool_goto loads m of Inl e \<Rightarrow> a | Inr g \<Rightarrow> g)) xs"
      using None by (simp add: scan_step del: scan_tool_messages.simps)
    have fm: "first_match (tool_message_goto loads) (x # xs)
                = first_match (tool_message_goto loads) xs"
      using None by (simp add: first_match_Cons)
    show ?thesis
      using Cons.IH [OF step_falsy [OF None Cons.prems]] unfolding eq fm .
  qed
qed

lemma get_active_agent_first_match:
  "get_active_agent loads state config w =
     (case first_match (tool_message_goto loads) (rev state) of
        Some g \<Rightarrow> g
      | None \<Rightarrow> store_active_agent w config)"
proof -
  have "\<not> truthy JNull" by simp
  from scan_tool_messages_first_match [OF this, of loads "rev state"]
  show ?thesis
    by (auto simp: get_active_agent_def store_active_agent_def thread_key_def read_item_def
          Let_def split: option.splits)
qed

text \<open>An exception of the parse that the handler of the coordinator's loop does not name
  leaves the loop, and with it the node.\<close>

lemma check_message_uncaught:
  assumes "loads s = Inl e" and "e \<notin> {JSONDecodeError, TypeError, AttributeError}"
    and "strip s \<noteq> []"
  shows "check_message loads (BaseMessage c (Str s)) = Inl e"
  using assms by (simp add: check_message_def try_parse_goto_def)

lemma long_integer_raises: "json_loads_fragment long_integer = Inl ValueError"
proof -
  have one: "\<not> json_ws (CHR ''1'')" "is_digit (CHR ''1'')"
    by (simp_all add: json_ws_def is_digit_def)
  have unfold: "long_integer = CHR ''1'' # replicate 4300 (CHR ''1'')"
    by (simp add: long_integer_def flip: replicate_Suc)
  have skip: "skip_ws long_integer = long_integer"
    using one by (simp add: skip_ws_def unfold)
  have hd1: "hd long_integer = CHR ''1''" and ne: "long_integer \<noteq> []"
    by (simp_all add: unfold)
  have kw: "\<not> startswith long_integer ''true''" "\<not> startswith long_integer ''false''"
    "\<not> startswith long_integer ''null''"
    by (simp_all add: startswith_def unfold)
  have ds: "takeWhile is_digit long_integer = long_integer"
    "dropWhile is_digit long_integer = []"
    using one by (simp_all add: long_integer_def)
  have len: "length long_integer = 4301"
    by (simp add: long_integer_def)
  have all: "Ball (set long_integer) is_digit"
    using one by (simp add: long_integer_def)
  have int: "read_int long_integer = Inl ValueError"
    using hd1 ne all by (simp add: read_int_def ds len Let_def)
  have "read_value (Suc (length long_integer)) long_integer = Inl ValueError"
    using hd1 ne kw int by (simp add: skip Let_def)
  then show ?thesis by (simp add: json_loads_fragment_def)
qed

lemma long_integer_not_blank: "strip long_integer \<noteq> []"
proof -
  have "\<not> py_isspace (CHR ''1'')" by (simp add: py_isspace_def)
  then show ?thesis by (simp add: strip_def long_integer_def)
qed

section \<open>The nodes on the example inputs\<close>

lemma support_reply:
  "call_customer_support_agent True reply_agents [] config_T1 empty_store =
     (Inr (Command (UpdateResponse (ResponseDict (Some reply_messages) [])) (JStr ''human'')),
      empty_store\<lparr>calls := [PatchActiveAgent ''cli-test'' ''cli-test'' ''T1'' ''customer_support_agent'',
                             AInvoke ''customer_support_agent'' [] None]\<rparr>)"
  by (simp add: call_customer_support_agent_def ainvoke_def reply_agents_def config_T1_def
        empty_store_def patch_active_agent_def configurable_get_def Let_def)

lemma sales_reply:
  "call_sales_agent True reply_agents [] config_T1 empty_store =
     (Inr (Command (UpdateResponse (ResponseDict (Some reply_messages) [])) (JStr ''human'')),
      empty_store\<lparr>calls := [PatchActiveAgent ''cli-test'' ''cli-test'' ''T1'' ''sales_agent'',
                             AInvoke ''sales_agent'' [] (Some config_T1)]\<rparr>)"
  by (simp add: call_sales_agent_def ainvoke_def reply_agents_def config_T1_def
        empty_store_def patch_active_agent_def configurable_get_def Let_def)

lemma transactions_reply:
  "call_transactions_agent True reply_agents [] config_T1 empty_store =
     (Inr (Command (UpdateResponse (ResponseDict
            (Some [BaseMessage HumanMessage (Str ''hello''),
                   BaseMessage AIMessage (Str ''How can I help?'')]) [])) (JStr ''human'')),
      [bank_transfer_hint ''Contoso'' ''Mark'' ''T1''],
      empty_store\<lparr>calls := [PatchActiveAgent ''cli-test'' ''cli-test'' ''T1'' ''transactions_agent'',
                             AInvoke ''transactions_agent''
                               [bank_transfer_hint ''Contoso'' ''Mark'' ''T1''] (Some config_T1)]\<rparr>)"
  by (simp add: call_transactions_agent_def ainvoke_def reply_agents_def reply_messages_def
        config_T1_def empty_store_def patch_active_agent_def configurable_get_def Let_def
        remove_system_messages_def)

section \<open>Routing on the persisted active agent\<close>

text \<open>
  C1. For every turn, if the persisted Session Store record of the thread has an active
  agent other than \<^verbatim>\<open>None\<close>, \<^verbatim>\<open>"unknown"\<close> and \<^verbatim>\<open>"coordinator_agent"\<close>, the router returns
  a command to that agent with the state unchanged, and calls nothing: the coordinator is
  not invoked and the world is as before. Otherwise (the lookup raises, or the active agent
  is one of the three, a record without the field counting as \<^verbatim>\<open>"unknown"\<close>) the last call
  the router makes is the invocation of the coordinator agent on the state.
\<close>

theorem router_follows_persisted_active_agent:
  "(chat_container w (thread_key config) = Inr item
      \<and> dict_get item ''activeAgent'' (JStr ''unknown'')
          \<notin> {JNull, JStr ''unknown'', JStr ''coordinator_agent''}
    \<longrightarrow> call_coordinator_agent mode loads agents state config w =
          (Inr (Command (UpdateState state) (dict_get item ''activeAgent'' (JStr ''unknown''))), w))
   \<and> (chat_container w (thread_key config) = Inl e
        \<or> (chat_container w (thread_key config) = Inr item
            \<and> dict_get item ''activeAgent'' (JStr ''unknown'')
                \<in> {JNull, JStr ''unknown'', JStr ''coordinator_agent''})
    \<longrightarrow> last (calls (snd (call_coordinator_agent mode loads agents state config w)))
          = AInvoke ''coordinator_agent'' state None)"
  by (auto simp: call_coordinator_agent_def thread_key_def read_item_def ainvoke_def Let_def
        split: sum.splits)

theorem router_follows_persisted_active_agent_witness:
  "chat_container sales_store (thread_key config_T1) = Inr sales_session
   \<and> dict_get sales_session ''activeAgent'' (JStr ''unknown'') = JStr ''sales_agent''
   \<and> call_coordinator_agent False json_loads_fragment reply_agents [] config_T1 sales_store =
       (Inr (Command (UpdateState []) (JStr ''sales_agent'')), sales_store)
   \<and> chat_container empty_store (thread_key config_T1) = Inl CosmosResourceNotFoundError
   \<and> last (calls (snd (call_coordinator_agent False json_loads_fragment reply_agents []
                          config_T1 empty_store)))
       = AInvoke ''coordinator_agent'' [] None"
proof -
  have k: "thread_key config_T1 = (''Contoso'', ''Mark'', ''T1'')"
    by (simp add: thread_key_def config_T1_def configurable_get_def)
  have a: "chat_container sales_store (thread_key config_T1) = Inr sales_session"
    by (simp add: k sales_store_def)
  have b: "dict_get sales_session ''activeAgent'' (JStr ''unknown'') = JStr ''sales_agent''"
    by (simp add: sales_session_def dict_get_def)
  have c: "chat_container empty_store (thread_key config_T1) = Inl CosmosResourceNotFoundError"
    by (simp add: empty_store_def)
  show ?thesis
    using a b c
      router_follows_persisted_active_agent
        [where w = sales_store and config = config_T1 and item = sales_session
           and mode = False and loads = json_loads_fragment and agents = reply_agents
           and state = "[]"]
      router_follows_persisted_active_agent
        [where w = empty_store and config = config_T1 and e = CosmosResourceNotFoundError
           and mode = False and loads = json_loads_fragment and agents = reply_agents
           and state = "[]"]
    by simp
qed

section \<open>Extraction of the transfer directive\<close>

text \<open>
  C2 describes one extraction for every agent response: newest message first, tool-result
  messages only, the structured \<^verbatim>\<open>goto\<close> before the legacy \<^verbatim>\<open>TRANSFER_REQUEST:\<close> form.
  The loop of the coordinator node departs from it, and from the conditional edge
  \<^verbatim>\<open>get_active_agent\<close> beside it, which does scan newest first and tool messages only.
  On a response whose older tool message carries the legacy form for the sales agent and
  whose newer one the structured form for the transactions agent, the node returns a
  command to the sales agent, where the extraction of the claim and the conditional edge on
  the same list both name the transactions agent. The node also takes a target from a
  message that is no tool result: the legacy text in a human message sends the turn to a
  node of that name, and a \<^verbatim>\<open>goto\<close> in an assistant message is followed. The conditional
  edge, for its part, does not know the legacy form.
\<close>

theorem coordinator_scan_disagrees_with_edge:
  "fst (call_coordinator_agent False json_loads_fragment transfer_agents [] config_T1
          empty_store)
     = Inr (Command (UpdateResponse (ResponseDict (Some [legacy_sales, goto_transactions]) []))
              (JStr ''sales_agent''))
   \<and> spec_transfer_target json_loads_fragment [legacy_sales, goto_transactions]
       = Some (JStr ''transactions_agent'')
   \<and> get_active_agent json_loads_fragment [Msg legacy_sales, Msg goto_transactions]
         config_T1 empty_store
       = JStr ''transactions_agent''
   \<and> find_transfer_target json_loads_fragment (ResponseDict (Some [human_transfer]) [])
       = Inr (JStr ''no_such_node'')
   \<and> spec_transfer_target json_loads_fragment [human_transfer] = None
   \<and> find_transfer_target json_loads_fragment (ResponseDict (Some [ai_goto_sales]) [])
       = Inr (JStr ''sales_agent'')
   \<and> spec_transfer_target json_loads_fragment [ai_goto_sales] = None
   \<and> get_active_agent json_loads_fragment [Msg legacy_sales] config_T1 empty_store
       = JStr ''unknown''
   \<and> spec_transfer_target json_loads_fragment [legacy_sales] = Some (JStr ''sales_agent'')"
proof -
  have t: "find_transfer_target json_loads_fragment
             (ResponseDict (Some [legacy_sales, goto_transactions]) [])
           = Inr (JStr ''sales_agent'')"
    by code_simp
  have a: "fst (call_coordinator_agent False json_loads_fragment transfer_agents [] config_T1
                  empty_store)
     = Inr (Command (UpdateResponse (ResponseDict (Some [legacy_sales, goto_transactions]) []))
              (JStr ''sales_agent''))"
    using t
    by (simp add: call_coordinator_agent_def read_item_def ainvoke_def Let_def
          transfer_agents_def empty_store_def)
  have b: "spec_transfer_target json_loads_fragment [legacy_sales, goto_transactions]
       = Some (JStr ''transactions_agent'')"
    by code_simp
  have c: "get_active_agent json_loads_fragment [Msg legacy_sales, Msg goto_transactions]
         config_T1 empty_store
       = JStr ''transactions_agent''"
    by code_simp
  have d: "find_transfer_target json_loads_fragment (ResponseDict (Some [human_transfer]) [])
       = Inr (JStr ''no_such_node'')"
    by code_simp
  have e: "spec_transfer_target json_loads_fragment [human_transfer] = None"
    by code_simp
  have f: "find_transfer_target json_loads_fragment (ResponseDict (Some [ai_goto_sales]) [])
       = Inr (JStr ''sales_agent'')"
    by code_simp
  have g: "spec_transfer_target json_loads_fragment [ai_goto_sales] = None"
    by code_simp
  have h: "get_active_agent json_loads_fragment [Msg legacy_sales] config_T1 empty_store
       = JStr ''unknown''"
    by code_simp
  have i: "spec_transfer_target json_loads_fragment [legacy_sales] = Some (JStr ''sales_agent'')"
    by code_simp
  show ?thesis using a b c d e f g h i by simp
qed

section \<open>The specialist nodes hand back to the human\<close>

text \<open>
  C3. Whenever a specialist node (customer support, sales, transactions) returns a
  command, the command's target is the \<^verbatim>\<open>human\<close> node; no specialist names another agent.
  A node returns a command unless its agent's invocation raises.
\<close>

theorem specialists_goto_human:
  "(call_customer_support_agent mode agents state config w = (Inr cmd1, w1)
      \<longrightarrow> goto cmd1 = JStr ''human'')
   \<and> (call_sales_agent mode agents state config w = (Inr cmd2, w2)
        \<longrightarrow> goto cmd2 = JStr ''human'')
   \<and> (call_transactions_agent mode agents state config w = (Inr cmd3, state3, w3)
        \<longrightarrow> goto cmd3 = JStr ''human'')
   \<and> isl (fst (call_customer_support_agent mode agents state config w))
       = isl (agents ''customer_support_agent'' state None)
   \<and> isl (fst (call_sales_agent mode agents state config w))
       = isl (agents ''sales_agent'' state (Some config))
   \<and> isl (fst (call_transactions_agent mode agents state config w))
       = isl (agents ''transactions_agent''
                (fst (snd (call_transactions_agent mode agents state config w))) (Some config))"
proof -
  have a: "call_customer_support_agent mode agents state config w = (Inr cmd1, w1)
      \<longrightarrow> goto cmd1 = JStr ''human''"
    by (auto simp: call_customer_support_agent_def ainvoke_def Let_def split: sum.splits)
  have b: "call_sales_agent mode agents state config w = (Inr cmd2, w2)
        \<longrightarrow> goto cmd2 = JStr ''human''"
    by (auto simp: call_sales_agent_def ainvoke_def Let_def split: sum.splits)
  have c: "call_transactions_agent mode agents state config w = (Inr cmd3, state3, w3)
        \<longrightarrow> goto cmd3 = JStr ''human''"
    by (auto simp: call_transactions_agent_def ainvoke_def Let_def split: sum.splits)
  have d: "isl (fst (call_customer_support_agent mode agents state config w))
       = isl (agents ''customer_support_agent'' state None)"
    by (auto simp: call_customer_support_agent_def ainvoke_def Let_def split: sum.splits)
  have e: "isl (fst (call_sales_agent mode agents state config w))
       = isl (agents ''sales_agent'' state (Some config))"
    by (auto simp: call_sales_agent_def ainvoke_def Let_def split: sum.splits)
  have f: "isl (fst (call_transactions_agent mode agents state config w))
       = isl (agents ''transactions_agent''
                (fst (snd (call_transactions_agent mode agents state config w))) (Some config))"
    by (auto simp: call_transactions_agent_def ainvoke_def Let_def split: sum.splits)
  show ?thesis using a b c d e f by blast
qed

theorem specialists_goto_human_witness:
  "fst (call_customer_support_agent True reply_agents [] config_T1 empty_store)
     = Inr (Command (UpdateResponse (ResponseDict (Some reply_messages) [])) (JStr ''human''))
   \<and> fst (call_sales_agent True reply_agents [] config_T1 empty_store)
     = Inr (Command (UpdateResponse (ResponseDict (Some reply_messages) [])) (JStr ''human''))
   \<and> fst (call_transactions_agent True reply_agents [] config_T1 empty_store)
     = Inr (Command (UpdateResponse (ResponseDict
            (Some [BaseMessage HumanMessage (Str ''hello''),
                   BaseMessage AIMessage (Str ''How can I help?'')]) [])) (JStr ''human''))
   \<and> goto (Command (UpdateResponse (ResponseDict (Some reply_messages) [])) (JStr ''human''))
     = JStr ''human''"
  using specialists_goto_human [of True reply_agents "[]" config_T1 empty_store]
    support_reply sales_reply transactions_reply
  by simp

section \<open>The transactions node and its system message\<close>

text \<open>
  C4. For every invocation of the transactions node in which the agent returns a response,
  the node returns a command, and the message list the command carries is the response's
  list with every system-role message taken out and the other messages kept in their
  order; so whenever the node returns a command, its message list holds no system-role
  message. The node raises only when the agent's invocation raises.
\<close>

theorem transactions_strips_system_messages:
  "(agents ''transactions_agent''
       (state @ [bank_transfer_hint (configurable_get config ''tenantId'' ''UNKNOWN_TENANT_ID'')
                   (configurable_get config ''userId'' ''UNKNOWN_USER_ID'')
                   (configurable_get config ''thread_id'' ''UNKNOWN_THREAD_ID'')])
       (Some config) = Inr response
     \<longrightarrow> (\<exists>cmd. fst (call_transactions_agent mode agents state config w) = Inr cmd
               \<and> goto cmd = JStr ''human''
               \<and> update_messages (update cmd) =
                   filter (\<lambda>x. \<not> is_system_role x) (update_messages (UpdateResponse response))))
   \<and> (fst (call_transactions_agent mode agents state config w) = Inr cmd'
     \<longrightarrow> (\<forall>x \<in> set (update_messages (update cmd')). \<not> is_system_role x))
   \<and> (fst (call_transactions_agent mode agents state config w) = Inl e
     \<longrightarrow> agents ''transactions_agent''
           (state @ [bank_transfer_hint (configurable_get config ''tenantId'' ''UNKNOWN_TENANT_ID'')
                       (configurable_get config ''userId'' ''UNKNOWN_USER_ID'')
                       (configurable_get config ''thread_id'' ''UNKNOWN_THREAD_ID'')])
           (Some config) = Inl e)"
proof -
  have m: "\<And>r. update_messages (UpdateResponse (remove_system_messages r)) =
           filter (\<lambda>x. \<not> is_system_role x) (update_messages (UpdateResponse r))"
  proof -
    fix r
    show "update_messages (UpdateResponse (remove_system_messages r)) =
           filter (\<lambda>x. \<not> is_system_role x) (update_messages (UpdateResponse r))"
      by (cases r)
         (auto simp: remove_system_messages_def update_messages_def is_system_role_def
            filter_map comp_def split: option.splits)
  qed
  have a: "agents ''transactions_agent''
       (state @ [bank_transfer_hint (configurable_get config ''tenantId'' ''UNKNOWN_TENANT_ID'')
                   (configurable_get config ''userId'' ''UNKNOWN_USER_ID'')
                   (configurable_get config ''thread_id'' ''UNKNOWN_THREAD_ID'')])
       (Some config) = Inr response
     \<longrightarrow> (\<exists>cmd. fst (call_transactions_agent mode agents state config w) = Inr cmd
               \<and> goto cmd = JStr ''human''
               \<and> update_messages (update cmd) =
                   filter (\<lambda>x. \<not> is_system_role x) (update_messages (UpdateResponse response)))"
    by (auto simp: call_transactions_agent_def ainvoke_def Let_def m)
  have b: "fst (call_transactions_agent mode agents state config w) = Inr cmd'
     \<longrightarrow> (\<forall>x \<in> set (update_messages (update cmd')). \<not> is_system_role x)"
    by (auto simp: call_transactions_agent_def ainvoke_def Let_def m split: sum.splits)
  have c: "fst (call_transactions_agent mode agents state config w) = Inl e
     \<longrightarrow> agents ''transactions_agent''
           (state @ [bank_transfer_hint (configurable_get config ''tenantId'' ''UNKNOWN_TENANT_ID'')
                       (configurable_get config ''userId'' ''UNKNOWN_USER_ID'')
                       (configurable_get config ''thread_id'' ''UNKNOWN_THREAD_ID'')])
           (Some config) = Inl e"
    by (auto simp: call_transactions_agent_def ainvoke_def Let_def split: sum.splits)
  show ?thesis using a b c by blast
qed

theorem transactions_strips_system_messages_witness:
  "reply_agents ''transactions_agent'' [bank_transfer_hint ''Contoso'' ''Mark'' ''T1'']
       (Some config_T1)
     = Inr (ResponseDict
              (Some [BaseMessage SystemMessage (Str ''context''),
                     BaseMessage HumanMessage (Str ''hello''),
                     BaseMessage AIMessage (Str ''How can I help?'')]) [])
   \<and> \<not> isl (fst (call_transactions_agent True reply_agents [] config_T1 empty_store))
   \<and> update_messages
         (update (projr (fst (call_transactions_agent True reply_agents [] config_T1
                                empty_store))))
       = [Msg (BaseMessage HumanMessage (Str ''hello'')),
          Msg (BaseMessage AIMessage (Str ''How can I help?''))]
   \<and> fst (call_transactions_agent True failing_agents [] config_T1 empty_store)
       = Inl (AgentInvocationError ''model unavailable'')
   \<and> failing_agents ''transactions_agent'' [bank_transfer_hint ''Contoso'' ''Mark'' ''T1'']
         (Some config_T1)
       = Inl (AgentInvocationError ''model unavailable'')"
proof -
  have k: "configurable_get config_T1 ''tenantId'' ''UNKNOWN_TENANT_ID'' = ''Contoso''"
    "configurable_get config_T1 ''userId'' ''UNKNOWN_USER_ID'' = ''Mark''"
    "configurable_get config_T1 ''thread_id'' ''UNKNOWN_THREAD_ID'' = ''T1''"
    by (simp_all add: config_T1_def configurable_get_def)
  have r: "reply_agents ''transactions_agent'' [bank_transfer_hint ''Contoso'' ''Mark'' ''T1'']
       (Some config_T1)
     = Inr (ResponseDict
              (Some [BaseMessage SystemMessage (Str ''context''),
                     BaseMessage HumanMessage (Str ''hello''),
                     BaseMessage AIMessage (Str ''How can I help?'')]) [])"
    by (simp add: reply_agents_def reply_messages_def)
  have f: "fst (call_transactions_agent True failing_agents [] config_T1 empty_store)
       = Inl (AgentInvocationError ''model unavailable'')"
    by (simp add: call_transactions_agent_def ainvoke_def Let_def failing_agents_def)
  have r': "reply_agents ''transactions_agent''
       ([] @ [bank_transfer_hint (configurable_get config_T1 ''tenantId'' ''UNKNOWN_TENANT_ID'')
                (configurable_get config_T1 ''userId'' ''UNKNOWN_USER_ID'')
                (configurable_get config_T1 ''thread_id'' ''UNKNOWN_THREAD_ID'')])
       (Some config_T1)
     = Inr (ResponseDict
              (Some [BaseMessage SystemMessage (Str ''context''),
                     BaseMessage HumanMessage (Str ''hello''),
                     BaseMessage AIMessage (Str ''How can I help?'')]) [])"
    by (simp add: reply_agents_def reply_messages_def)
  from transactions_strips_system_messages
         [where agents = reply_agents and state = "[]" and config = config_T1 and mode = True
            and w = empty_store, THEN conjunct1, THEN mp, OF r']
  obtain cmd where c: "fst (call_transactions_agent True reply_agents [] config_T1 empty_store)
                         = Inr cmd"
    and u: "update_messages (update cmd) =
              filter (\<lambda>x. \<not> is_system_role x)
                (update_messages (UpdateResponse (ResponseDict
                   (Some [BaseMessage SystemMessage (Str ''context''),
                          BaseMessage HumanMessage (Str ''hello''),
                          BaseMessage AIMessage (Str ''How can I help?'')]) [])))"
    by blast
  have g: "failing_agents ''transactions_agent'' [bank_transfer_hint ''Contoso'' ''Mark'' ''T1'']
         (Some config_T1)
       = Inl (AgentInvocationError ''model unavailable'')"
    using f
      transactions_strips_system_messages
         [where agents = failing_agents and state = "[]" and config = config_T1 and mode = True
            and w = empty_store and e = "AgentInvocationError ''model unavailable''"]
    by (simp add: k)
  show ?thesis
    using r c u f g by (simp add: update_messages_def is_system_role_def)
qed

section \<open>Failures recovered inside the router\<close>

text \<open>
  C5. For every turn in which the Session Store lookup for the thread raises, whatever the
  exception, the router goes on to invoke the coordinator agent, and the lookup's
  exception does not reach the caller: the node's result is the one of the coordinator's
  turn alone (the error of the invocation, or of the scan of its response, or the command
  built from the response), and it is the result the node gives when the record is there
  with the active agent \<^verbatim>\<open>"unknown"\<close>. In the conditional edge the failed lookup yields
  the active agent \<^verbatim>\<open>"unknown"\<close>, unless a tool message of the state names a target, again
  as for a record whose active agent is \<^verbatim>\<open>"unknown"\<close>.
\<close>

theorem lookup_failure_defaults_to_coordinator:
  assumes "chat_container w (thread_key config) = Inl e"
  shows "last (calls (snd (call_coordinator_agent mode loads agents state config w)))
           = AInvoke ''coordinator_agent'' state None
         \<and> fst (call_coordinator_agent mode loads agents state config w) =
             (case agents ''coordinator_agent'' state None of
                Inl e' \<Rightarrow> Inl e'
              | Inr response \<Rightarrow>
                  (case find_transfer_target loads response of
                     Inl e' \<Rightarrow> Inl e'
                   | Inr t \<Rightarrow>
                       Inr (Command (UpdateResponse response)
                              (if truthy t then t else JStr ''human''))))
         \<and> fst (call_coordinator_agent mode loads agents state config w) =
             fst (call_coordinator_agent mode loads agents state config
                    (w\<lparr>chat_container :=
                         (chat_container w)
                           (thread_key config := Inr [(''activeAgent'', JStr ''unknown'')])\<rparr>))
         \<and> get_active_agent loads state config w =
             (case first_match (tool_message_goto loads) (rev state) of
                Some g \<Rightarrow> g
              | None \<Rightarrow> JStr ''unknown'')
         \<and> get_active_agent loads state config w =
             get_active_agent loads state config
               (w\<lparr>chat_container :=
                    (chat_container w)
                      (thread_key config := Inr [(''activeAgent'', JStr ''unknown'')])\<rparr>)"
proof -
  let ?w' = "w\<lparr>chat_container :=
                 (chat_container w)
                   (thread_key config := Inr [(''activeAgent'', JStr ''unknown'')])\<rparr>"
  have a: "last (calls (snd (call_coordinator_agent mode loads agents state config w)))
           = AInvoke ''coordinator_agent'' state None"
    using assms
    by (auto simp: call_coordinator_agent_def thread_key_def read_item_def ainvoke_def Let_def
          split: sum.splits)
  have b: "fst (call_coordinator_agent mode loads agents state config w) =
             (case agents ''coordinator_agent'' state None of
                Inl e' \<Rightarrow> Inl e'
              | Inr response \<Rightarrow>
                  (case find_transfer_target loads response of
                     Inl e' \<Rightarrow> Inl e'
                   | Inr t \<Rightarrow>
                       Inr (Command (UpdateResponse response)
                              (if truthy t then t else JStr ''human''))))"
    using assms
    by (auto simp: call_coordinator_agent_def thread_key_def read_item_def ainvoke_def Let_def
          split: sum.splits)
  have c: "fst (call_coordinator_agent mode loads agents state config ?w') =
             (case agents ''coordinator_agent'' state None of
                Inl e' \<Rightarrow> Inl e'
              | Inr response \<Rightarrow>
                  (case find_transfer_target loads response of
                     Inl e' \<Rightarrow> Inl e'
                   | Inr t \<Rightarrow>
                       Inr (Command (UpdateResponse response)
                              (if truthy t then t else JStr ''human''))))"
    by (auto simp: call_coordinator_agent_def thread_key_def read_item_def ainvoke_def Let_def
          dict_get_def split: sum.splits)
  have d: "get_active_agent loads state config w =
             (case first_match (tool_message_goto loads) (rev state) of
                Some g \<Rightarrow> g
              | None \<Rightarrow> JStr ''unknown'')"
    using assms
    by (simp add: get_active_agent_first_match store_active_agent_def split: option.splits)
  have e: "get_active_agent loads state config ?w' =
             (case first_match (tool_message_goto loads) (rev state) of
                Some g \<Rightarrow> g
              | None \<Rightarrow> JStr ''unknown'')"
    by (simp add: get_active_agent_first_match store_active_agent_def dict_get_def
          split: option.splits)
  show ?thesis using a b c d e by simp
qed

theorem lookup_failure_defaults_to_coordinator_witness:
  "chat_container unreachable_store (thread_key config_T1)
     = Inl (CosmosHttpResponseError ''503 Service Unavailable'')
   \<and> last (calls (snd (call_coordinator_agent True json_loads_fragment reply_agents []
                          config_T1 unreachable_store)))
       = AInvoke ''coordinator_agent'' [] None
   \<and> fst (call_coordinator_agent True json_loads_fragment reply_agents [] config_T1
            unreachable_store)
       = Inr (Command (UpdateResponse (ResponseDict (Some reply_messages) [])) (JStr ''human''))
   \<and> fst (call_coordinator_agent False json_loads_fragment failing_agents [] config_T1
            unreachable_store)
       = Inl (AgentInvocationError ''model unavailable'')
   \<and> fst (call_coordinator_agent False json_loads_fragment transfer_agents [] config_T1
            empty_store)
       = Inr (Command (UpdateResponse (ResponseDict (Some [legacy_sales, goto_transactions]) []))
                (JStr ''sales_agent''))
   \<and> get_active_agent json_loads_fragment [] config_T1 unreachable_store = JStr ''unknown''
   \<and> get_active_agent json_loads_fragment [Msg goto_transactions] config_T1 unreachable_store
       = JStr ''transactions_agent''"
proof -
  have u: "chat_container unreachable_store (thread_key config_T1)
             = Inl (CosmosHttpResponseError ''503 Service Unavailable'')"
    by (simp add: unreachable_store_def)
  have h: "chat_container empty_store (thread_key config_T1) = Inl CosmosResourceNotFoundError"
    by (simp add: empty_store_def)
  have r: "reply_agents ''coordinator_agent'' [] None = Inr (ResponseDict (Some reply_messages) [])"
    by (simp add: reply_agents_def)
  have f: "failing_agents ''coordinator_agent'' [] None
             = Inl (AgentInvocationError ''model unavailable'')"
    by (simp add: failing_agents_def)
  have x: "transfer_agents ''coordinator_agent'' [] None
             = Inr (ResponseDict (Some [legacy_sales, goto_transactions]) [])"
    by (simp add: transfer_agents_def)
  have t1: "find_transfer_target json_loads_fragment (ResponseDict (Some reply_messages) [])
              = Inr JNull"
    by code_simp
  have t2: "find_transfer_target json_loads_fragment
              (ResponseDict (Some [legacy_sales, goto_transactions]) [])
              = Inr (JStr ''sales_agent'')"
    by code_simp
  have m1: "first_match (tool_message_goto json_loads_fragment) [] = None"
    by (simp add: first_match_Nil)
  have m2: "first_match (tool_message_goto json_loads_fragment) [Msg goto_transactions]
              = Some (JStr ''transactions_agent'')"
    by code_simp
  have w1: "last (calls (snd (call_coordinator_agent True json_loads_fragment reply_agents []
                          config_T1 unreachable_store)))
       = AInvoke ''coordinator_agent'' [] None"
    using lookup_failure_defaults_to_coordinator
        [OF u, where mode = True and loads = json_loads_fragment and agents = reply_agents
           and state = "[]", THEN conjunct1] .
  have w2: "fst (call_coordinator_agent True json_loads_fragment reply_agents [] config_T1
            unreachable_store)
       = Inr (Command (UpdateResponse (ResponseDict (Some reply_messages) [])) (JStr ''human''))"
    using lookup_failure_defaults_to_coordinator
        [OF u, where mode = True and loads = json_loads_fragment and agents = reply_agents
           and state = "[]", THEN conjunct2, THEN conjunct1]
    by (simp add: r t1)
  have w3: "fst (call_coordinator_agent False json_loads_fragment failing_agents [] config_T1
            unreachable_store)
       = Inl (AgentInvocationError ''model unavailable'')"
    using lookup_failure_defaults_to_coordinator
        [OF u, where mode = False and loads = json_loads_fragment and agents = failing_agents
           and state = "[]", THEN conjunct2, THEN conjunct1]
    by (simp add: f)
  have w4: "fst (call_coordinator_agent False json_loads_fragment transfer_agents [] config_T1
            empty_store)
       = Inr (Command (UpdateResponse (ResponseDict (Some [legacy_sales, goto_transactions]) []))
                (JStr ''sales_agent''))"
    using lookup_failure_defaults_to_coordinator
        [OF h, where mode = False and loads = json_loads_fragment and agents = transfer_agents
           and state = "[]", THEN conjunct2, THEN conjunct1]
    by (simp add: x t2)
  have w5: "get_active_agent json_loads_fragment [] config_T1 unreachable_store
              = JStr ''unknown''"
    using lookup_failure_defaults_to_coordinator
        [OF u, where mode = False and loads = json_loads_fragment and agents = reply_agents
           and state = "[]", THEN conjunct2, THEN conjunct2, THEN conjunct2, THEN conjunct1]
    by (simp add: m1)
  have w6: "get_active_agent json_loads_fragment [Msg goto_transactions] config_T1
              unreachable_store = JStr ''transactions_agent''"
    using lookup_failure_defaults_to_coordinator
        [OF u, where mode = False and loads = json_loads_fragment and agents = reply_agents
           and state = "[Msg goto_transactions]",
         THEN conjunct2, THEN conjunct2, THEN conjunct2, THEN conjunct1]
    by (simp add: m2)
  show ?thesis using u w1 w2 w3 w4 w5 w6 by simp
qed

section \<open>A parse failure the coordinator node does not catch\<close>

text \<open>
  C6 has every failure of the structured parse recovered inside the router. The handler in
  the coordinator node names \<^verbatim>\<open>JSONDecodeError\<close>, \<^verbatim>\<open>TypeError\<close> and \<^verbatim>\<open>AttributeError\<close>
  only, where the conditional edge beside it catches every \<^verbatim>\<open>Exception\<close>. Whenever
  \<^verbatim>\<open>json.loads\<close> raises another exception on a message's non-blank content, and no earlier
  message of the response decided the scan, the exception leaves the coordinator node and
  reaches the caller of the turn, while the conditional edge passes the same content over.
  The content of 4301 digits is such a message: the parse raises \<^verbatim>\<open>ValueError\<close>.
\<close>

theorem uncaught_parse_error_leaves_coordinator:
  assumes "chat_container w (thread_key config) = Inl e0
           \<or> (chat_container w (thread_key config) = Inr item
               \<and> dict_get item ''activeAgent'' (JStr ''unknown'')
                   \<in> {JNull, JStr ''unknown'', JStr ''coordinator_agent''})"
    and "agents ''coordinator_agent'' state None
           = Inr (ResponseDict (Some (BaseMessage c (Str s) # ms)) other)"
    and "loads s = Inl e"
    and "e \<notin> {JSONDecodeError, TypeError, AttributeError}"
    and "strip s \<noteq> []"
  shows "fst (call_coordinator_agent mode loads agents state config w) = Inl e
         \<and> get_active_agent loads (st @ [Msg (BaseMessage ToolMessage (Str s))]) config w
             = get_active_agent loads st config w
         \<and> get_active_agent loads st config w
             = (case first_match (tool_message_goto loads) (rev st) of
                  Some g \<Rightarrow> g
                | None \<Rightarrow> store_active_agent w config)"
proof -
  have "check_message loads (BaseMessage c (Str s)) = Inl e"
    using assms(3-5) by (rule check_message_uncaught)
  then have t: "find_transfer_target loads (ResponseDict (Some (BaseMessage c (Str s) # ms)) other)
                  = Inl e"
    by (simp add: find_transfer_target_def)
  have a: "fst (call_coordinator_agent mode loads agents state config w) = Inl e"
    using assms(1,2) t
    by (auto simp: call_coordinator_agent_def thread_key_def read_item_def ainvoke_def Let_def)
  have "tool_message_goto loads (Msg (BaseMessage ToolMessage (Str s))) = None"
    using assms(3) by (simp add: tool_message_goto_def structured_goto_def)
  then have b: "get_active_agent loads (st @ [Msg (BaseMessage ToolMessage (Str s))]) config w
                  = get_active_agent loads st config w"
    by (simp add: get_active_agent_first_match first_match_Cons)
  have c: "get_active_agent loads st config w
             = (case first_match (tool_message_goto loads) (rev st) of
                  Some g \<Rightarrow> g
                | None \<Rightarrow> store_active_agent w config)"
    by (rule get_active_agent_first_match)
  show ?thesis using a b c by simp
qed

theorem uncaught_parse_error_leaves_coordinator_witness:
  "chat_container empty_store (thread_key config_T1) = Inl CosmosResourceNotFoundError
   \<and> long_integer_agents ''coordinator_agent'' [] None
       = Inr (ResponseDict (Some [BaseMessage ToolMessage (Str long_integer)]) [])
   \<and> json_loads_fragment long_integer = Inl ValueError
   \<and> strip long_integer \<noteq> []
   \<and> fst (call_coordinator_agent False json_loads_fragment long_integer_agents [] config_T1
            empty_store)
       = Inl ValueError
   \<and> get_active_agent json_loads_fragment [Msg long_integer_message] config_T1 empty_store
       = JStr ''unknown''
   \<and> get_active_agent json_loads_fragment [Msg goto_transactions, Msg long_integer_message]
         config_T1 empty_store
       = JStr ''transactions_agent''"
proof -
  have h: "chat_container empty_store (thread_key config_T1) = Inl CosmosResourceNotFoundError
           \<or> (chat_container empty_store (thread_key config_T1) = Inr []
               \<and> dict_get [] ''activeAgent'' (JStr ''unknown'')
                   \<in> {JNull, JStr ''unknown'', JStr ''coordinator_agent''})"
    by (simp add: empty_store_def)
  have r: "long_integer_agents ''coordinator_agent'' [] None
       = Inr (ResponseDict (Some (BaseMessage ToolMessage (Str long_integer) # [])) [])"
    by (simp add: long_integer_agents_def long_integer_message_def)
  have v: "ValueError \<notin> {JSONDecodeError, TypeError, AttributeError}"
    by simp
  have g: "get_active_agent json_loads_fragment [] config_T1 empty_store = JStr ''unknown''"
    by code_simp
  have g': "get_active_agent json_loads_fragment [Msg goto_transactions] config_T1 empty_store
              = JStr ''transactions_agent''"
    by code_simp
  note U = uncaught_parse_error_leaves_coordinator
        [where w = empty_store and config = config_T1 and agents = long_integer_agents
           and state = "[]" and loads = json_loads_fragment and s = long_integer
           and c = ToolMessage and ms = "[]" and other = "[]" and e = ValueError
           and mode = False and e0 = CosmosResourceNotFoundError and item = "[]",
         OF h r long_integer_raises v long_integer_not_blank]
  have n: "fst (call_coordinator_agent False json_loads_fragment long_integer_agents []
                  config_T1 empty_store) = Inl ValueError"
    using U [where st = "[]"] by simp
  have e1: "get_active_agent json_loads_fragment [Msg long_integer_message] config_T1
              empty_store = JStr ''unknown''"
    using U [where st = "[]"] g by (simp add: long_integer_message_def)
  have e2: "get_active_agent json_loads_fragment [Msg goto_transactions, Msg long_integer_message]
              config_T1 empty_store = JStr ''transactions_agent''"
    using U [where st = "[Msg goto_transactions]"] g' by (simp add: long_integer_message_def)
  show ?thesis
    using r long_integer_raises long_integer_not_blank n e1 e2
    by (simp add: empty_store_def)
qed

section \<open>The failure policy of the bootstrap\<close>

text \<open>
  C7. When no client has been set up yet, the bootstrap tries the shared MCP provider
  first, and tries the lightweight MCP provider exactly when the shared one failed; it
  raises if and only if both failed, and the error is then the fatal
  \<^verbatim>\<open>"Both shared and lightweight MCP initialization failed"\<close>. When the shared provider
  works its client and tools are returned, and when only the lightweight one works its
  client and tools are returned.
\<close>

theorem bootstrap_fatal_iff_both_fail:
  assumes "persistent_mcp_client g = None"
  shows "(isl (fst (get_persistent_mcp_client env g))
            \<longleftrightarrow> primary_fails env \<and> fallback_fails env)
         \<and> (isl (fst (get_persistent_mcp_client env g))
            \<longrightarrow> fst (get_persistent_mcp_client env g) = Inl both_failed)
         \<and> attempts (snd (get_persistent_mcp_client env g)) =
             attempts g @ (if primary_fails env then [SharedMCP, LightweightMCP] else [SharedMCP])
         \<and> (\<not> primary_fails env
            \<longrightarrow> (\<exists>sc tools. get_shared_mcp_client env = Inr sc
                    \<and> shared_get_tools env = Inr tools
                    \<and> fst (get_persistent_mcp_client env g)
                        = Inr (SharedMCPClientWrapper sc, Some tools)))
         \<and> (primary_fails env \<and> \<not> fallback_fails env
            \<longrightarrow> (\<exists>c tools. new_multi_server_client env = Inr c
                    \<and> multi_get_tools env = Inr tools
                    \<and> fst (get_persistent_mcp_client env g) = Inr (c, Some tools)))"
  using assms
  by (cases "get_shared_mcp_client env"; cases "shared_get_tools env";
      cases "new_multi_server_client env"; cases "multi_get_tools env")
     (simp_all add: get_persistent_mcp_client_def lightweight_fallback_def primary_fails_def
        fallback_fails_def Let_def)

theorem bootstrap_fatal_iff_both_fail_witness:
  "persistent_mcp_client fresh_globals = None
   \<and> fst (get_persistent_mcp_client env_shared_up fresh_globals)
       = Inr (SharedMCPClientWrapper SharedMCPClient,
              Some [''transfer_to_sales_agent'', ''bank_balance''])
   \<and> fst (get_persistent_mcp_client env_shared_down fresh_globals)
       = Inr (MultiServerMCPClient, Some [''bank_balance''])
   \<and> attempts (snd (get_persistent_mcp_client env_shared_down fresh_globals))
       = [SharedMCP, LightweightMCP]
   \<and> fst (get_persistent_mcp_client env_both_down fresh_globals) = Inl both_failed"
proof -
  have h: "persistent_mcp_client fresh_globals = None"
    by (simp add: fresh_globals_def)
  show ?thesis
    using h
      bootstrap_fatal_iff_both_fail [OF h, of env_shared_up]
      bootstrap_fatal_iff_both_fail [OF h, of env_shared_down]
      bootstrap_fatal_iff_both_fail [OF h, of env_both_down]
    by (simp add: primary_fails_def fallback_fails_def env_shared_up_def env_shared_down_def
          env_both_down_def fresh_globals_def)
qed

section \<open>Writes to the Session Store\<close>

text \<open>
  C8, as stated, has every specialist invocation write its identity to the Session Store.
  With \<^verbatim>\<open>local_interactive_mode\<close> off, which is the module's initial value, no specialist
  node calls \<^verbatim>\<open>patch_active_agent\<close>: the only call each makes is the agent's invocation.
\<close>

theorem specialists_patch_counterexample:
  "calls (snd (call_customer_support_agent False reply_agents [] config_T1 empty_store))
     = [AInvoke ''customer_support_agent'' [] None]
   \<and> calls (snd (call_sales_agent False reply_agents [] config_T1 empty_store))
     = [AInvoke ''sales_agent'' [] (Some config_T1)]
   \<and> calls (snd (snd (call_transactions_agent False reply_agents [] config_T1 empty_store)))
     = [AInvoke ''transactions_agent'' [bank_transfer_hint ''Contoso'' ''Mark'' ''T1'']
          (Some config_T1)]"
  by (simp add: call_customer_support_agent_def call_sales_agent_def
        call_transactions_agent_def ainvoke_def Let_def reply_agents_def config_T1_def
        empty_store_def configurable_get_def)

text \<open>
  C8, amended. When \<^verbatim>\<open>local_interactive_mode\<close> is set, each specialist node calls
  \<^verbatim>\<open>patch_active_agent\<close> with tenant and user \<^verbatim>\<open>"cli-test"\<close>, the thread id and its own
  name, and only then invokes its agent; a record stored under that key then has the
  node's name as its active agent. When the flag is not set, the node writes nothing: its
  only call is the agent's invocation and the container is unchanged.
\<close>

theorem specialists_patch_only_in_local_mode:
  "calls (snd (call_customer_support_agent mode agents state config w)) =
     calls w
     @ (if mode then [PatchActiveAgent ''cli-test'' ''cli-test''
                        (configurable_get config ''thread_id'' ''UNKNOWN_THREAD_ID'')
                        ''customer_support_agent''] else [])
     @ [AInvoke ''customer_support_agent'' state None]
   \<and> calls (snd (call_sales_agent mode agents state config w)) =
     calls w
     @ (if mode then [PatchActiveAgent ''cli-test'' ''cli-test''
                        (configurable_get config ''thread_id'' ''UNKNOWN_THREAD_ID'')
                        ''sales_agent''] else [])
     @ [AInvoke ''sales_agent'' state (Some config)]
   \<and> calls (snd (snd (call_transactions_agent mode agents state config w))) =
     calls w
     @ (if mode then [PatchActiveAgent ''cli-test'' ''cli-test''
                        (configurable_get config ''thread_id'' ''UNKNOWN_THREAD_ID'')
                        ''transactions_agent''] else [])
     @ [AInvoke ''transactions_agent''
          (fst (snd (call_transactions_agent mode agents state config w))) (Some config)]
   \<and> (\<not> mode \<longrightarrow>
        chat_container (snd (call_customer_support_agent mode agents state config w))
          = chat_container w
        \<and> chat_container (snd (call_sales_agent mode agents state config w)) = chat_container w
        \<and> chat_container (snd (snd (call_transactions_agent mode agents state config w)))
          = chat_container w)
   \<and> (mode \<and> chat_container w (''cli-test'', ''cli-test'',
                 configurable_get config ''thread_id'' ''UNKNOWN_THREAD_ID'') = Inr item
      \<longrightarrow> (\<exists>item'. chat_container (snd (call_customer_support_agent mode agents state config w))
                      (''cli-test'', ''cli-test'',
                       configurable_get config ''thread_id'' ''UNKNOWN_THREAD_ID'') = Inr item'
                   \<and> dict_get item' ''activeAgent'' JNull = JStr ''customer_support_agent'')
        \<and> (\<exists>item'. chat_container (snd (call_sales_agent mode agents state config w))
                      (''cli-test'', ''cli-test'',
                       configurable_get config ''thread_id'' ''UNKNOWN_THREAD_ID'') = Inr item'
                   \<and> dict_get item' ''activeAgent'' JNull = JStr ''sales_agent'')
        \<and> (\<exists>item'. chat_container (snd (snd (call_transactions_agent mode agents state config w)))
                      (''cli-test'', ''cli-test'',
                       configurable_get config ''thread_id'' ''UNKNOWN_THREAD_ID'') = Inr item'
                   \<and> dict_get item' ''activeAgent'' JNull = JStr ''transactions_agent''))"
proof -
  have a: "calls (snd (call_customer_support_agent mode agents state config w)) =
     calls w
     @ (if mode then [PatchActiveAgent ''cli-test'' ''cli-test''
                        (configurable_get config ''thread_id'' ''UNKNOWN_THREAD_ID'')
                        ''customer_support_agent''] else [])
     @ [AInvoke ''customer_support_agent'' state None]"
    by (auto simp: call_customer_support_agent_def ainvoke_def Let_def patch_active_agent_def
          split: sum.splits)
  have b: "calls (snd (call_sales_agent mode agents state config w)) =
     calls w
     @ (if mode then [PatchActiveAgent ''cli-test'' ''cli-test''
                        (configurable_get config ''thread_id'' ''UNKNOWN_THREAD_ID'')
                        ''sales_agent''] else [])
     @ [AInvoke ''sales_agent'' state (Some config)]"
    by (auto simp: call_sales_agent_def ainvoke_def Let_def patch_active_agent_def
          split: sum.splits)
  have c: "calls (snd (snd (call_transactions_agent mode agents state config w))) =
     calls w
     @ (if mode then [PatchActiveAgent ''cli-test'' ''cli-test''
                        (configurable_get config ''thread_id'' ''UNKNOWN_THREAD_ID'')
                        ''transactions_agent''] else [])
     @ [AInvoke ''transactions_agent''
          (fst (snd (call_transactions_agent mode agents state config w))) (Some config)]"
    by (auto simp: call_transactions_agent_def ainvoke_def Let_def patch_active_agent_def
          split: sum.splits)
  have d: "\<not> mode \<longrightarrow>
        chat_container (snd (call_customer_support_agent mode agents state config w))
          = chat_container w
        \<and> chat_container (snd (call_sales_agent mode agents state config w)) = chat_container w
        \<and> chat_container (snd (snd (call_transactions_agent mode agents state config w)))
          = chat_container w"
    by (auto simp: call_customer_support_agent_def call_sales_agent_def
          call_transactions_agent_def ainvoke_def Let_def split: sum.splits)
  have e: "mode \<and> chat_container w (''cli-test'', ''cli-test'',
                 configurable_get config ''thread_id'' ''UNKNOWN_THREAD_ID'') = Inr item
      \<longrightarrow> (\<exists>item'. chat_container (snd (call_customer_support_agent mode agents state config w))
                      (''cli-test'', ''cli-test'',
                       configurable_get config ''thread_id'' ''UNKNOWN_THREAD_ID'') = Inr item'
                   \<and> dict_get item' ''activeAgent'' JNull = JStr ''customer_support_agent'')
        \<and> (\<exists>item'. chat_container (snd (call_sales_agent mode agents state config w))
                      (''cli-test'', ''cli-test'',
                       configurable_get config ''thread_id'' ''UNKNOWN_THREAD_ID'') = Inr item'
                   \<and> dict_get item' ''activeAgent'' JNull = JStr ''sales_agent'')
        \<and> (\<exists>item'. chat_container (snd (snd (call_transactions_agent mode agents state config w)))
                      (''cli-test'', ''cli-test'',
                       configurable_get config ''thread_id'' ''UNKNOWN_THREAD_ID'') = Inr item'
                   \<and> dict_get item' ''activeAgent'' JNull = JStr ''transactions_agent'')"
  proof
    assume h: "mode \<and> chat_container w (''cli-test'', ''cli-test'',
                 configurable_get config ''thread_id'' ''UNKNOWN_THREAD_ID'') = Inr item"
    then have m: mode and r: "chat_container w (''cli-test'', ''cli-test'',
                 configurable_get config ''thread_id'' ''UNKNOWN_THREAD_ID'') = Inr item"
      by simp_all
    show "(\<exists>item'. chat_container (snd (call_customer_support_agent mode agents state config w))
                      (''cli-test'', ''cli-test'',
                       configurable_get config ''thread_id'' ''UNKNOWN_THREAD_ID'') = Inr item'
                   \<and> dict_get item' ''activeAgent'' JNull = JStr ''customer_support_agent'')
        \<and> (\<exists>item'. chat_container (snd (call_sales_agent mode agents state config w))
                      (''cli-test'', ''cli-test'',
                       configurable_get config ''thread_id'' ''UNKNOWN_THREAD_ID'') = Inr item'
                   \<and> dict_get item' ''activeAgent'' JNull = JStr ''sales_agent'')
        \<and> (\<exists>item'. chat_container (snd (snd (call_transactions_agent mode agents state config w)))
                      (''cli-test'', ''cli-test'',
                       configurable_get config ''thread_id'' ''UNKNOWN_THREAD_ID'') = Inr item'
                   \<and> dict_get item' ''activeAgent'' JNull = JStr ''transactions_agent'')"
      using m patch_active_agent_sets [OF r, of "''customer_support_agent''"]
        patch_active_agent_sets [OF r, of "''sales_agent''"]
        patch_active_agent_sets [OF r, of "''transactions_agent''"]
      by (auto simp: call_customer_support_agent_def call_sales_agent_def
            call_transactions_agent_def ainvoke_def Let_def split: sum.splits)
  qed
  show ?thesis using a b c d e by blast
qed

theorem specialists_patch_only_in_local_mode_witness:
  "calls (snd (call_sales_agent False reply_agents [] config_T1 empty_store))
     = [AInvoke ''sales_agent'' [] (Some config_T1)]
   \<and> chat_container (snd (call_sales_agent False reply_agents [] config_T1 empty_store))
     = chat_container empty_store
   \<and> chat_container cli_store (''cli-test'', ''cli-test'', ''T1'') = Inr (default_session ''T1'')
   \<and> calls (snd (call_sales_agent True reply_agents [] config_T1 cli_store))
     = [PatchActiveAgent ''cli-test'' ''cli-test'' ''T1'' ''sales_agent'',
        AInvoke ''sales_agent'' [] (Some config_T1)]
   \<and> (\<exists>item'. chat_container (snd (call_sales_agent True reply_agents [] config_T1 cli_store))
                  (''cli-test'', ''cli-test'', ''T1'') = Inr item'
               \<and> dict_get item' ''activeAgent'' JNull = JStr ''sales_agent'')"
proof -
  have t: "configurable_get config_T1 ''thread_id'' ''UNKNOWN_THREAD_ID'' = ''T1''"
    by (simp add: config_T1_def configurable_get_def)
  have r: "chat_container cli_store (''cli-test'', ''cli-test'', ''T1'')
             = Inr (default_session ''T1'')"
    by (simp add: cli_store_def)
  have c0: "calls empty_store = []" by (simp add: empty_store_def)
  have c1: "calls cli_store = []" by (simp add: cli_store_def)
  show ?thesis
    using r
      specialists_patch_only_in_local_mode
        [where mode = False and agents = reply_agents and state = "[]" and config = config_T1
           and w = empty_store]
      specialists_patch_only_in_local_mode
        [where mode = True and agents = reply_agents and state = "[]" and config = config_T1
           and w = cli_store and item = "default_session ''T1''"]
    by (simp add: t c0 c1)
qed




section \<open>The transactions node changes its input state\<close>

text \<open>
  C10. For every invocation of the transactions node, whether the agent raises or
  returns, the caller's state ends as the input state with the system-context dict
  appended; the agent is invoked on that extended state; and the appended dict has the
  system role. The filter on the response does not touch it: it is the last entry of the
  state the node leaves behind.
\<close>

theorem transactions_agent_mutates_input_state:
  "fst (snd (call_transactions_agent mode agents state config w)) =
     state @ [bank_transfer_hint (configurable_get config ''tenantId'' ''UNKNOWN_TENANT_ID'')
                (configurable_get config ''userId'' ''UNKNOWN_USER_ID'')
                (configurable_get config ''thread_id'' ''UNKNOWN_THREAD_ID'')]
   \<and> last (calls (snd (snd (call_transactions_agent mode agents state config w)))) =
       AInvoke ''transactions_agent''
         (state @ [bank_transfer_hint (configurable_get config ''tenantId'' ''UNKNOWN_TENANT_ID'')
                (configurable_get config ''userId'' ''UNKNOWN_USER_ID'')
                (configurable_get config ''thread_id'' ''UNKNOWN_THREAD_ID'')])
         (Some config)
   \<and> is_system_role (last (fst (snd (call_transactions_agent mode agents state config w))))"
  by (auto simp: call_transactions_agent_def ainvoke_def Let_def is_system_role_def
        bank_transfer_hint_def dict_get_def split: sum.splits)

theorem transactions_agent_mutates_input_state_witness:
  "fst (snd (call_transactions_agent False reply_agents
               [Msg (BaseMessage HumanMessage (Str ''send 10 to Ana''))] config_T1 empty_store))
     = [Msg (BaseMessage HumanMessage (Str ''send 10 to Ana'')),
        bank_transfer_hint ''Contoso'' ''Mark'' ''T1'']
   \<and> fst (snd (call_transactions_agent False failing_agents [] config_T1 empty_store))
     = [bank_transfer_hint ''Contoso'' ''Mark'' ''T1'']
   \<and> fst (call_transactions_agent False failing_agents [] config_T1 empty_store)
     = Inl (AgentInvocationError ''model unavailable'')
   \<and> is_system_role
       (last (fst (snd (call_transactions_agent False failing_agents [] config_T1 empty_store))))"
proof -
  have k: "configurable_get config_T1 ''tenantId'' ''UNKNOWN_TENANT_ID'' = ''Contoso''"
    "configurable_get config_T1 ''userId'' ''UNKNOWN_USER_ID'' = ''Mark''"
    "configurable_get config_T1 ''thread_id'' ''UNKNOWN_THREAD_ID'' = ''T1''"
    by (simp_all add: config_T1_def configurable_get_def)
  have f: "fst (call_transactions_agent False failing_agents [] config_T1 empty_store)
     = Inl (AgentInvocationError ''model unavailable'')"
    by (simp add: call_transactions_agent_def ainvoke_def Let_def failing_agents_def)
  show ?thesis
    using f
      transactions_agent_mutates_input_state
        [where mode = False and agents = reply_agents
           and state = "[Msg (BaseMessage HumanMessage (Str ''send 10 to Ana''))]"
           and config = config_T1 and w = empty_store]
      transactions_agent_mutates_input_state
        [where mode = False and agents = failing_agents and state = "[]"
           and config = config_T1 and w = empty_store]
    by (simp add: k is_system_role_def bank_transfer_hint_def dict_get_def)
qed

end
